theory Spec2Isabelle
  imports Main
begin

section \<open>JavaScript values\<close>

text \<open>
  The dynamically typed values the handlers inspect with \<^verbatim>\<open>typeof\<close>, truthiness tests and
  property reads. Numbers are restricted to integers (link ids are integers). An object
  or a function carries the list of the properties a read can see, in enumeration order.
\<close>

datatype jsval =
    JUndefined
  | JNull
  | JBool bool
  | JNum int
  | JStr string
  | JObj "(string \<times> jsval) list"
  | JFun nat "(string \<times> jsval) list"

text \<open>Truthiness, as tested by \<^verbatim>\<open>if (v)\<close> and \<^verbatim>\<open>! v\<close>.\<close>

fun truthy :: "jsval \<Rightarrow> bool" where
  "truthy JUndefined = False"
| "truthy JNull = False"
| "truthy (JBool b) = b"
| "truthy (JNum n) = (n \<noteq> 0)"
| "truthy (JStr s) = (s \<noteq> [])"
| "truthy (JObj ps) = True"
| "truthy (JFun f ps) = True"

fun typeof :: "jsval \<Rightarrow> string" where
  "typeof JUndefined = ''undefined''"
| "typeof JNull = ''object''"
| "typeof (JBool b) = ''boolean''"
| "typeof (JNum n) = ''number''"
| "typeof (JStr s) = ''string''"
| "typeof (JObj ps) = ''object''"
| "typeof (JFun f ps) = ''function''"

text \<open>
  A property read \<^verbatim>\<open>v.k\<close>. Reading a property of \<^verbatim>\<open>undefined\<close> or \<^verbatim>\<open>null\<close> throws a
  TypeError (the value \<open>None\<close>); a missing property reads as \<^verbatim>\<open>undefined\<close>. The wrappers of
  booleans, numbers and strings have none of the properties this program reads by a
  fixed name (\<^verbatim>\<open>lid\<close>, \<^verbatim>\<open>synced\<close>, \<^verbatim>\<open>link\<close>, \<^verbatim>\<open>ws\<close>, \<^verbatim>\<open>open\<close>).
\<close>

fun lookup :: "(string \<times> jsval) list \<Rightarrow> string \<Rightarrow> jsval" where
  "lookup [] k = JUndefined"
| "lookup ((k', v) # ps) k = (if k' = k then v else lookup ps k)"

fun get_prop :: "jsval \<Rightarrow> string \<Rightarrow> jsval option" where
  "get_prop JUndefined k = None"
| "get_prop JNull k = None"
| "get_prop (JObj ps) k = Some (lookup ps k)"
| "get_prop (JFun f ps) k = Some (lookup ps k)"
| "get_prop v k = Some JUndefined"

section \<open>Slave shard client socket\<close>

text \<open>
  The socket class that links a shard to its master in another instance. Objects are
  shared by reference (\<^verbatim>\<open>shard.master = this\<close>, \<^verbatim>\<open>this.shard = shard\<close>), so the model keeps a
  store: every socket, shard and peer is an identity, and the store gives its fields.
  A field that is not set is \<open>None\<close>.
\<close>

type_synonym sock_id = nat
type_synonym shard_id = nat
type_synonym peer_id = nat

datatype subject = Socket sock_id | Shard shard_id | Unbound

text \<open>An error object built by \<^verbatim>\<open>Ose.error(subject, code, ...)\<close>.\<close>

datatype error = Error (subject: subject) (code: string) (args: "jsval list")

text \<open>What a call can throw: an error object, or the TypeError of the runtime.\<close>

datatype exn = Raise error | TypeError

datatype outcome = Returned | Thrown exn

text \<open>The functions handed to timers and event subscriptions: both re-run \<^verbatim>\<open>connect(that)\<close>.\<close>

datatype thunk = ConnectRetry sock_id

datatype arg = ANull | AErr error | ASock sock_id

text \<open>The frame \<^verbatim>\<open>{type: 'shard', newLid: that.lid, handlers: that.handlers, shard: that.shard.identify()}\<close>.\<close>

datatype frame = ShardFrame sock_id shard_id

text \<open>
  Calls into collaborators whose code is outside this class are recorded, in order.
\<close>

datatype call =
    Once sock_id string nat
  | Emit sock_id string "arg list"
  | SetSynced shard_id jsval
  | Check2Link shard_id
  | LinkMaster shard_id string
  | LinkError sock_id error
  | SetTimeout thunk nat
  | PeerOnce peer_id string thunk
  | LinkPrepare sock_id
  | AddLink peer_id sock_id
  | Tx peer_id frame

record entry =
  slaves :: jsval

text \<open>
  A shard: its \<^verbatim>\<open>master\<close> field, its \<^verbatim>\<open>cache\<close> object (keys are distinct, listed in
  enumeration order) and the answer \<^verbatim>\<open>check2Link()\<close> gives when asked.
\<close>

record shard_obj =
  master :: "sock_id option"
  cache :: "(string \<times> entry) list"
  check2Link :: bool

record socket =
  shard :: "shard_id option"
  peer :: "peer_id option"

record peer_obj =
  isConnected :: bool

record world =
  shards :: "shard_id \<Rightarrow> shard_obj"
  sockets :: "sock_id \<Rightarrow> socket"
  peers :: "peer_id \<Rightarrow> peer_obj"
  trace :: "call list"

definition do_call :: "call \<Rightarrow> world \<Rightarrow> world" where
  "do_call c w = w\<lparr>trace := trace w @ [c]\<rparr>"

definition set_master :: "shard_id \<Rightarrow> sock_id option \<Rightarrow> world \<Rightarrow> world" where
  "set_master s m w = w\<lparr>shards := (shards w)(s := (shards w s)\<lparr>master := m\<rparr>)\<rparr>"

definition set_shard :: "sock_id \<Rightarrow> shard_id option \<Rightarrow> world \<Rightarrow> world" where
  "set_shard this s w = w\<lparr>sockets := (sockets w)(this := (sockets w this)\<lparr>shard := s\<rparr>)\<rparr>"

definition set_peer :: "sock_id \<Rightarrow> peer_id option \<Rightarrow> world \<Rightarrow> world" where
  "set_peer this p w = w\<lparr>sockets := (sockets w)(this := (sockets w this)\<lparr>peer := p\<rparr>)\<rparr>"

text \<open>
  \<^verbatim>\<open>connect(that)\<close>. With a connected peer the link is prepared and registered before the
  frame is built, so a socket without a shard throws after those two calls.
\<close>

definition connect :: "world \<Rightarrow> sock_id \<Rightarrow> outcome \<times> world" where
  "connect w that =
     (case peer (sockets w that) of
        None \<Rightarrow> (Thrown TypeError, w)
      | Some p \<Rightarrow>
          if isConnected (peers w p) then
            (let w1 = do_call (LinkPrepare that) w;
                 w2 = do_call (AddLink p that) w1
             in case shard (sockets w2 that) of
                  None \<Rightarrow> (Thrown TypeError, w2)
                | Some s \<Rightarrow> (Returned, do_call (Tx p (ShardFrame that s)) w2))
          else
            (let w1 = do_call (Emit that ''done'' [AErr (Error (Socket that) ''DISCONNECTED'' [])]) w
             in (Returned, do_call (PeerOnce p ''connected'' (ConnectRetry that)) w1)))"

fun run_thunk :: "thunk \<Rightarrow> world \<Rightarrow> outcome \<times> world" where
  "run_thunk (ConnectRetry that) w = connect w that"

text \<open>The constructor \<^verbatim>\<open>C(shard, peer, cb)\<close>, run on the new object \<open>this\<close>.\<close>

definition C :: "world \<Rightarrow> sock_id \<Rightarrow> shard_id \<Rightarrow> peer_id \<Rightarrow> nat option \<Rightarrow> outcome \<times> world" where
  "C w this s p cb =
     (if master (shards w s) \<noteq> None then
        (Thrown (Raise (Error (Shard s) ''duplicitMaster'' [])), w)
      else
        (let w1 = set_master s (Some this) w;
             w2 = set_shard this (Some s) w1;
             w3 = (case cb of None \<Rightarrow> w2 | Some f \<Rightarrow> do_call (Once this ''done'' f) w2);
             w4 = set_peer this (Some p) w3
         in connect w4 this))"

text \<open>The private teardown \<^verbatim>\<open>close(that, err)\<close>; \<open>err\<close> is \<open>None\<close> when the caller passes none.\<close>

definition close :: "world \<Rightarrow> sock_id \<Rightarrow> error option \<Rightarrow> outcome \<times> world" where
  "close w that err =
     (case shard (sockets w that) of
        None \<Rightarrow>
          (Thrown (Raise (Error Unbound ''UNEXPECTED''
             [JStr ''\"Shard to master\" client socket was already closed!''])), w)
      | Some s \<Rightarrow>
          (let w1 = do_call (SetSynced s (JBool False)) w;
               w2 = do_call (Check2Link s) w1
           in if check2Link (shards w2 s) then
                (case err of
                   None \<Rightarrow> (Thrown TypeError, w2)
                 | Some e \<Rightarrow>
                     if code e = ''DISCONNECTED'' then
                       (Returned, do_call (SetTimeout (ConnectRetry that) 1000) w2)
                     else (Returned, w2))
              else (Returned, set_shard that None (set_master s None w2))))"

text \<open>The handler \<^verbatim>\<open>synced(data)\<close>.\<close>

definition synced :: "world \<Rightarrow> sock_id \<Rightarrow> jsval \<Rightarrow> outcome \<times> world" where
  "synced w this d =
     (if typeof d = ''boolean'' then
        (case shard (sockets w this) of
           None \<Rightarrow> (Thrown TypeError, w)
         | Some s \<Rightarrow> (Returned, do_call (SetSynced s d) w))
      else (Returned, do_call (LinkError this (Error (Socket this) ''invalidSynced'' [d])) w))"

text \<open>The loop of the open handler over the cache of shard \<open>s\<close>.\<close>

fun link_entries :: "shard_id \<Rightarrow> (string \<times> entry) list \<Rightarrow> world \<Rightarrow> world" where
  "link_entries s [] w = w"
| "link_entries s ((key, e) # rest) w =
     (if \<not> truthy (slaves e) then link_entries s rest w
      else link_entries s rest (do_call (LinkMaster s key) w))"

text \<open>The handler \<^verbatim>\<open>open(data)\<close>.\<close>

definition "open" :: "world \<Rightarrow> sock_id \<Rightarrow> jsval \<Rightarrow> outcome \<times> world" where
  "open w this d =
     (case shard (sockets w this) of
        None \<Rightarrow> (Thrown TypeError, w)
      | Some s \<Rightarrow>
          (let w1 = link_entries s (cache (shards w s)) w
           in case get_prop d ''synced'' of
                None \<Rightarrow> (Thrown TypeError, w1)
              | Some v \<Rightarrow>
                  (case synced w1 this v of
                     (Thrown x, w2) \<Rightarrow> (Thrown x, w2)
                   | (Returned, w2) \<Rightarrow>
                       (Returned, do_call (Emit this ''done'' [ANull, ASock this]) w2))))"

text \<open>The handler \<^verbatim>\<open>close()\<close>: the teardown is called without an error.\<close>

definition close_handler :: "world \<Rightarrow> sock_id \<Rightarrow> outcome \<times> world" where
  "close_handler w this =
     (case close w this None of
        (Thrown x, w1) \<Rightarrow> (Thrown x, w1)
      | (Returned, w1) \<Rightarrow>
          (Returned, do_call (Emit this ''done'' [AErr (Error (Socket this) ''CLOSED'' [])]) w1))"

text \<open>The handler \<^verbatim>\<open>error(err)\<close>.\<close>

definition error_handler :: "world \<Rightarrow> sock_id \<Rightarrow> error \<Rightarrow> outcome \<times> world" where
  "error_handler w this err =
     (case close w this (Some err) of
        (Thrown x, w1) \<Rightarrow> (Thrown x, w1)
      | (Returned, w1) \<Rightarrow> (Returned, do_call (Emit this ''done'' [AErr err]) w1))"

text \<open>
  What can happen to the sockets of a process: a construction, one of the four handlers
  delivered to a socket, a timer or subscription firing, and the collaborators changing
  what they answer. A handler that throws leaves the fields it had already written.
\<close>

datatype event =
    EvNew sock_id shard_id peer_id "nat option"
  | EvOpen sock_id jsval
  | EvClose sock_id
  | EvError sock_id error
  | EvSynced sock_id jsval
  | EvFire thunk
  | EnvConnected peer_id bool
  | EnvCheck2Link shard_id bool
  | EnvCache shard_id "(string \<times> entry) list"

fun step :: "world \<Rightarrow> event \<Rightarrow> world" where
  "step w (EvNew this s p cb) = snd (C w this s p cb)"
| "step w (EvOpen this d) = snd (open w this d)"
| "step w (EvClose this) = snd (close_handler w this)"
| "step w (EvError this err) = snd (error_handler w this err)"
| "step w (EvSynced this d) = snd (synced w this d)"
| "step w (EvFire t) = snd (run_thunk t w)"
| "step w (EnvConnected p b) = w\<lparr>peers := (peers w)(p := (peers w p)\<lparr>isConnected := b\<rparr>)\<rparr>"
| "step w (EnvCheck2Link s b) = w\<lparr>shards := (shards w)(s := (shards w s)\<lparr>check2Link := b\<rparr>)\<rparr>"
| "step w (EnvCache s c) = w\<lparr>shards := (shards w)(s := (shards w s)\<lparr>cache := c\<rparr>)\<rparr>"

definition run :: "world \<Rightarrow> event list \<Rightarrow> world" where
  "run w evs = foldl step w evs"

text \<open>A process in which no socket has been constructed yet.\<close>

definition blank :: world where
  "blank = \<lparr>shards = (\<lambda>s. \<lparr>master = None, cache = [], check2Link = False\<rparr>),
            sockets = (\<lambda>t. \<lparr>shard = None, peer = None\<rparr>),
            peers = (\<lambda>p. \<lparr>isConnected = False\<rparr>),
            trace = []\<rparr>"

text \<open>Every socket that holds a shard is the socket that shard records as its master.\<close>

definition one_master :: "world \<Rightarrow> bool" where
  "one_master w \<longleftrightarrow> (\<forall>t s. shard (sockets w t) = Some s \<longrightarrow> master (shards w s) = Some t)"

section \<open>Peer RX handlers\<close>

text \<open>
  The decoded request envelope. \<open>lid\<close> and \<open>newLid\<close> are integers, \<open>None\<close> when the
  field is absent; \<open>rtype\<close> is the field \<^verbatim>\<open>type\<close>.
\<close>

record request =
  rtype :: string
  lid :: "int option"
  newLid :: "int option"
  name :: string
  handlers :: jsval
  data :: jsval

datatype rx_subject = OfWs | OfObj jsval

datatype rx_data = DReq request | DVal jsval

datatype rx_err = RxError rx_subject string rx_data

text \<open>Calls into the collaborators of the dispatcher, in order.\<close>

datatype rx_call =
    Log rx_err
  | TxError int rx_err
  | ObjTxError jsval jsval rx_err
  | NewWsRelay request jsval
  | NewWsSlave jsval jsval jsval
  | SocketWsTx jsval request
  | LinkErr jsval rx_err
  | NewWsMaster int jsval
  | Invoke jsval string jsval "int option"

text \<open>The link table of a connection: a missing key reads as \<^verbatim>\<open>undefined\<close>.\<close>

record ws =
  links :: "string \<Rightarrow> jsval"

text \<open>\<^verbatim>\<open>Number.prototype.toString(16)\<close> on an integer.\<close>

definition hex_digit :: "nat \<Rightarrow> char" where
  "hex_digit d = ''0123456789abcdef'' ! d"

fun hex_nat :: "nat \<Rightarrow> string" where
  "hex_nat n = (if n < 16 then [hex_digit n] else hex_nat (n div 16) @ [hex_digit (n mod 16)])"

declare hex_nat.simps [simp del]

definition toString16 :: "int \<Rightarrow> string" where
  "toString16 i = (if i < 0 then CHR ''-'' # hex_nat (nat (- i)) else hex_nat (nat i))"

text \<open>The value of \<^verbatim>\<open>req.lid\<close> and of \<^verbatim>\<open>req.newLid\<close>.\<close>

definition js_int :: "int option \<Rightarrow> jsval" where
  "js_int x = (case x of None \<Rightarrow> JUndefined | Some l \<Rightarrow> JNum l)"

text \<open>\<^verbatim>\<open>getLink(ws, req)\<close>: the socket found, or \<^verbatim>\<open>undefined\<close>, and the calls made.\<close>

definition getLink :: "ws \<Rightarrow> request \<Rightarrow> jsval \<times> rx_call list" where
  "getLink w req =
     (case lid req of
        None \<Rightarrow> (JUndefined, [Log (RxError OfWs ''MISSING_LINK'' (DReq req))])
      | Some l \<Rightarrow>
          if \<not> truthy (js_int (lid req)) then
            (JUndefined, [Log (RxError OfWs ''MISSING_LINK'' (DReq req))])
          else
            (let result = links w (toString16 l)
             in if truthy result then (result, [])
                else if rtype req = ''error'' then
                  (JUndefined, [Log (RxError OfWs ''MISSING_LINK'' (DReq req))])
                else (JUndefined, [TxError l (RxError OfWs ''MISSING_LINK'' (DReq req))])))"

text \<open>
  The private helper \<^verbatim>\<open>error(ws, err, data)\<close>. Its first argument is whatever object the
  caller passes; the frame is sent only when \<^verbatim>\<open>data.lid\<close> is truthy.
\<close>

definition error :: "jsval \<Rightarrow> string \<Rightarrow> jsval \<Rightarrow> outcome \<times> rx_call list" where
  "error target err d =
     (let e = RxError (OfObj target) err (DVal d)
      in case get_prop d ''lid'' of
           None \<Rightarrow> (Thrown TypeError, [])
         | Some l \<Rightarrow> (Returned, (if truthy l then [ObjTxError target l e] else []) @ [Log e]))"

text \<open>The handler of an \<^verbatim>\<open>open\<close> frame.\<close>

definition rx_open :: "ws \<Rightarrow> request \<Rightarrow> outcome \<times> rx_call list" where
  "rx_open w req =
     (case getLink w req of (socket, es) \<Rightarrow>
        if \<not> truthy socket then (Returned, es)
        else
          (case get_prop socket ''link'' of
             None \<Rightarrow> (Thrown TypeError, es)
           | Some k \<Rightarrow>
               if k = JStr ''relay'' then (Returned, es @ [NewWsRelay req socket])
               else
                 (case get_prop socket ''open'' of
                    None \<Rightarrow> (Thrown TypeError, es)
                  | Some h \<Rightarrow>
                      if typeof h \<noteq> ''function'' then
                        (case error socket ''MISSING_HANDLER'' (JStr ''open'') of
                           (out, es') \<Rightarrow> (out, es @ es'))
                      else (Returned, es @ [NewWsSlave socket (handlers req) (data req)]))))"

text \<open>\<^verbatim>\<open>Array.prototype.indexOf\<close>: the first position of \<open>x\<close>, or \<open>-1\<close>.\<close>

fun indexOf_from :: "string list \<Rightarrow> string \<Rightarrow> int \<Rightarrow> int" where
  "indexOf_from [] x i = - 1"
| "indexOf_from (y # ys) x i = (if y = x then i else indexOf_from ys x (i + 1))"

definition indexOf :: "string list \<Rightarrow> string \<Rightarrow> int" where
  "indexOf xs x = indexOf_from xs x 0"

text \<open>
  The handler of a \<^verbatim>\<open>command\<close> frame. The list \<^verbatim>\<open>Ose.link.forbiddenNames\<close> is declared
  outside these files and is a parameter here.
\<close>

definition rx_command :: "string list \<Rightarrow> ws \<Rightarrow> request \<Rightarrow> outcome \<times> rx_call list" where
  "rx_command forbiddenNames w req =
     (case getLink w req of (socket, es) \<Rightarrow>
        if \<not> truthy socket then (Returned, es)
        else
          (case get_prop socket ''ws'' of
             None \<Rightarrow> (Thrown TypeError, es)
           | Some t \<Rightarrow>
               if truthy t then (Returned, es @ [SocketWsTx socket req])
               else if indexOf forbiddenNames (name req) \<ge> 0 then
                 (Returned, es @ [LinkErr socket
                    (RxError OfWs ''FORBIDDEN_HANDLER'' (DVal (JStr (name req))))])
               else
                 (case get_prop socket (name req) of
                    None \<Rightarrow> (Thrown TypeError, es)
                  | Some h \<Rightarrow>
                      if typeof h \<noteq> ''function'' then
                        (Returned, es @ [LinkErr socket
                           (RxError (OfObj socket) ''MISSING_HANDLER'' (DVal (JStr (name req))))])
                      else
                        (case newLid req of
                           None \<Rightarrow> (Returned, es @ [Invoke socket (name req) (data req) None])
                         | Some n \<Rightarrow>
                             if truthy (js_int (newLid req)) then
                               (Returned, es @ [NewWsMaster n (handlers req),
                                                Invoke socket (name req) (data req) (Some n)])
                             else (Returned, es @ [Invoke socket (name req) (data req) None])))))"

text \<open>Connections used as concrete inputs: no registered link, and one registered link.\<close>

definition no_links :: ws where
  "no_links = \<lparr>links = (\<lambda>k. JUndefined)\<rparr>"

definition one_link :: "string \<Rightarrow> jsval \<Rightarrow> ws" where
  "one_link key socket = \<lparr>links = (\<lambda>k. if k = key then socket else JUndefined)\<rparr>"

text \<open>A request of the given type and link id, every other field absent.\<close>

definition frame_of :: "string \<Rightarrow> int option \<Rightarrow> string \<Rightarrow> request" where
  "frame_of t l n =
     \<lparr>rtype = t, lid = l, newLid = None, name = n, handlers = JUndefined, data = JUndefined\<rparr>"

section \<open>Properties of the slave shard client socket\<close>

subsection \<open>Fields after the elementary updates\<close>

lemma trace_do_call [simp]: "trace (do_call c w) = trace w @ [c]"
  and shards_do_call [simp]: "shards (do_call c w) = shards w"
  and sockets_do_call [simp]: "sockets (do_call c w) = sockets w"
  and peers_do_call [simp]: "peers (do_call c w) = peers w"
  by (simp_all add: do_call_def)

lemma set_master_fields [simp]:
  "shards (set_master s m w) = (shards w)(s := (shards w s)\<lparr>master := m\<rparr>)"
  "sockets (set_master s m w) = sockets w"
  "peers (set_master s m w) = peers w"
  "trace (set_master s m w) = trace w"
  by (simp_all add: set_master_def)

lemma set_shard_fields [simp]:
  "sockets (set_shard t s w) = (sockets w)(t := (sockets w t)\<lparr>shard := s\<rparr>)"
  "shards (set_shard t s w) = shards w"
  "peers (set_shard t s w) = peers w"
  "trace (set_shard t s w) = trace w"
  by (simp_all add: set_shard_def)

lemma set_peer_fields [simp]:
  "sockets (set_peer t p w) = (sockets w)(t := (sockets w t)\<lparr>peer := p\<rparr>)"
  "shards (set_peer t p w) = shards w"
  "peers (set_peer t p w) = peers w"
  "trace (set_peer t p w) = trace w"
  by (simp_all add: set_peer_def)

lemma connect_keeps_links:
  "shards (snd (connect w that)) = shards w \<and> sockets (snd (connect w that)) = sockets w"
  by (simp add: connect_def Let_def split: option.splits)

lemma synced_keeps_links:
  "shards (snd (synced w this d)) = shards w \<and> sockets (snd (synced w this d)) = sockets w"
  by (simp add: synced_def split: option.splits)

lemma link_entries_trace:
  "link_entries s c w = w\<lparr>trace := trace w @ map (LinkMaster s) (map fst (filter (\<lambda>ke. truthy (slaves (snd ke))) c))\<rparr>"
  by (induction c arbitrary: w) (auto simp: do_call_def)

lemma open_keeps_links:
  "shards (snd (open w this d)) = shards w \<and> sockets (snd (open w this d)) = sockets w"
  by (auto simp: open_def Let_def link_entries_trace synced_def split: option.splits prod.splits outcome.splits)

lemma one_master_connect: "one_master w \<Longrightarrow> one_master (snd (connect w that))"
  by (simp add: one_master_def connect_keeps_links)

lemma one_master_C: "one_master w \<Longrightarrow> one_master (snd (C w this s p cb))"
  unfolding C_def Let_def
  by (auto simp: one_master_def connect_keeps_links split: option.splits)

lemma one_master_close: "one_master w \<Longrightarrow> one_master (snd (close w that err))"
proof (cases "shard (sockets w that)")
  case None
  assume "one_master w"
  then show ?thesis using None by (simp add: close_def)
next
  case (Some s)
  assume inv: "one_master w"
  show ?thesis
  proof (cases "check2Link (shards w s)")
    case True
    then have "shards (snd (close w that err)) = shards w \<and> sockets (snd (close w that err)) = sockets w"
      using Some by (simp add: close_def Let_def split: option.splits)
    then show ?thesis using inv by (simp add: one_master_def)
  next
    case False
    then have eq: "snd (close w that err) =
        set_shard that None (set_master s None (do_call (Check2Link s) (do_call (SetSynced s (JBool False)) w)))"
      using Some by (simp add: close_def Let_def)
    have "\<And>t. shard (sockets w t) = Some s \<Longrightarrow> t = that"
    proof -
      fix t assume "shard (sockets w t) = Some s"
      then have "master (shards w s) = Some t" using inv by (simp add: one_master_def)
      moreover have "master (shards w s) = Some that" using inv Some by (simp add: one_master_def)
      ultimately show "t = that" by simp
    qed
    then show ?thesis using inv unfolding eq one_master_def by auto
  qed
qed

lemma close_handler_snd: "shards (snd (close_handler w t)) = shards (snd (close w t None)) \<and> sockets (snd (close_handler w t)) = sockets (snd (close w t None))"
  by (auto simp: close_handler_def split: prod.splits outcome.splits)

lemma error_handler_snd: "shards (snd (error_handler w t e)) = shards (snd (close w t (Some e))) \<and> sockets (snd (error_handler w t e)) = sockets (snd (close w t (Some e)))"
  by (auto simp: error_handler_def split: prod.splits outcome.splits)

lemma one_master_step: "one_master w \<Longrightarrow> one_master (step w ev)"
proof (cases ev)
  case (EvNew this s p cb)
  assume "one_master w" then show ?thesis using EvNew by (simp add: one_master_C)
next
  case (EvOpen this d)
  assume "one_master w" then show ?thesis using EvOpen open_keeps_links[of w this d]
    by (simp add: one_master_def)
next
  case (EvClose this)
  assume "one_master w"
  then have "one_master (snd (close w this None))" by (rule one_master_close)
  then show ?thesis using EvClose close_handler_snd[of w this] by (simp add: one_master_def)
next
  case (EvError this e)
  assume "one_master w"
  then have "one_master (snd (close w this (Some e)))" by (rule one_master_close)
  then show ?thesis using EvError error_handler_snd[of w this e] by (simp add: one_master_def)
next
  case (EvSynced this d)
  assume "one_master w" then show ?thesis using EvSynced synced_keeps_links[of w this d]
    by (simp add: one_master_def)
next
  case (EvFire t)
  assume "one_master w" then show ?thesis using EvFire
    by (cases t) (simp add: one_master_connect)
next
  case (EnvConnected p b)
  assume "one_master w" then show ?thesis using EnvConnected by (simp add: one_master_def)
next
  case (EnvCheck2Link s b)
  assume "one_master w" then show ?thesis using EnvCheck2Link by (simp add: one_master_def)
next
  case (EnvCache s c)
  assume "one_master w" then show ?thesis using EnvCache by (simp add: one_master_def)
qed

lemma one_master_run: "one_master w \<Longrightarrow> one_master (run w evs)"
  unfolding run_def by (induction evs arbitrary: w) (simp_all add: one_master_step)

lemma one_master_blank: "one_master blank"
  by (simp add: one_master_def blank_def)

subsection \<open>The synced handler\<close>

lemma typeof_boolean: "typeof d = ''boolean'' \<longleftrightarrow> (\<exists>b. d = JBool b)"
  by (cases d) simp_all

text \<open>
  Claim C8. For every payload delivered to the synced handler of a shard's master socket
  (a socket whose \<open>shard\<close> field holds shard \<open>s\<close>): a boolean payload is applied by the
  single call \<^verbatim>\<open>shard.setSynced(payload)\<close>; for any payload that is not a boolean the only
  call made is the report of an \<^verbatim>\<open>invalidSynced\<close> error through \<^verbatim>\<open>Ose.link.error\<close>, so
  \<^verbatim>\<open>setSynced\<close> is not called.
\<close>

theorem synced_boolean_only:
  "(shard (sockets w this) = Some s \<longrightarrow>
      synced w this (JBool b) = (Returned, do_call (SetSynced s (JBool b)) w))
   \<and> ((\<forall>b. d \<noteq> JBool b) \<longrightarrow>
      synced w this d =
        (Returned, do_call (LinkError this (Error (Socket this) ''invalidSynced'' [d])) w)
      \<and> trace (snd (synced w this d)) =
          trace w @ [LinkError this (Error (Socket this) ''invalidSynced'' [d])])"
  by (simp add: synced_def typeof_boolean)

theorem synced_boolean_only_witness:
  "synced (run blank [EvNew 1 0 0 None]) 1 (JBool True) =
     (Returned, do_call (SetSynced 0 (JBool True)) (run blank [EvNew 1 0 0 None]))
   \<and> trace (snd (synced blank 1 (JStr ''yes''))) =
       [LinkError 1 (Error (Socket 1) ''invalidSynced'' [JStr ''yes''])]"
proof -
  have h1: "shard (sockets (run blank [EvNew 1 0 0 None]) 1) = Some 0"
    by (simp add: run_def C_def blank_def connect_def Let_def)
  have h2: "\<forall>b. JStr ''yes'' \<noteq> JBool b" by simp
  have t0: "trace blank = []" by (simp add: blank_def)
  show ?thesis
    using synced_boolean_only [of "run blank [EvNew 1 0 0 None]" 1 0 True "JStr ''yes''"]
      synced_boolean_only [of blank 1 0 True "JStr ''yes''"] h1 h2 t0
    by simp
qed

subsection \<open>A linked socket as a concrete input\<close>

text \<open>
  After one construction on a blank process (peer not connected), socket 1 is the master
  of shard 0 and has reported \<^verbatim>\<open>DISCONNECTED\<close> once.
\<close>

lemma linked_example:
  "shard (sockets (run blank [EvNew 1 0 0 None]) 1) = Some 0"
  "master (shards (run blank [EvNew 1 0 0 None]) 0) = Some 1"
  "peer (sockets (run blank [EvNew 1 0 0 None]) 1) = Some 0"
  "\<not> check2Link (shards (run blank [EvNew 1 0 0 None]) 0)"
  "\<not> isConnected (peers (run blank [EvNew 1 0 0 None]) 0)"
  "trace (run blank [EvNew 1 0 0 None]) =
     [Emit 1 ''done'' [AErr (Error (Socket 1) ''DISCONNECTED'' [])],
      PeerOnce 0 ''connected'' (ConnectRetry 1)]"
  by (simp_all add: run_def C_def blank_def connect_def Let_def)

subsection \<open>Construction\<close>

lemma C_duplicate: "master (shards w s) \<noteq> None \<Longrightarrow>
   C w this s p cb = (Thrown (Raise (Error (Shard s) ''duplicitMaster'' [])), w)"
  by (simp add: C_def)

lemma C_records_then_connects:
  assumes "master (shards w s) = None"
  shows "\<exists>w'. C w this s p cb = connect w' this
              \<and> master (shards w' s) = Some this
              \<and> shard (sockets w' this) = Some s
              \<and> peer (sockets w' this) = Some p
              \<and> trace w' = trace w @ (case cb of None \<Rightarrow> [] | Some f \<Rightarrow> [Once this ''done'' f])"
proof (cases cb)
  case None
  show ?thesis
    by (rule exI [of _ "set_peer this (Some p) (set_shard this (Some s) (set_master s (Some this) w))"])
       (simp add: C_def Let_def assms None)
next
  case (Some f)
  show ?thesis
    by (rule exI [of _ "set_peer this (Some p) (do_call (Once this ''done'' f)
            (set_shard this (Some s) (set_master s (Some this) w)))"])
       (simp add: C_def Let_def assms Some)
qed

lemma C_master_after:
  "master (shards w s) = None \<Longrightarrow> master (shards (snd (C w this s p cb)) s) = Some this"
  by (simp add: C_def Let_def connect_keeps_links split: option.splits)

lemma one_master_unique:
  "one_master w \<Longrightarrow> shard (sockets w t) = Some s \<Longrightarrow> shard (sockets w t') = Some s \<Longrightarrow> t = t'"
  by (metis one_master_def option.inject)

text \<open>
  Claim C2. For every shard there is at most one master socket at any time. Constructing
  a connector for a shard whose \<open>master\<close> field is set throws \<^verbatim>\<open>duplicitMaster\<close> and
  changes nothing. A successful construction is the connect algorithm run in a process
  \<open>w'\<close> in which the shard already records the new socket as its master and in which no
  call of the connect algorithm has been made yet; the shard still records it afterwards.
  Over any sequence of constructions, handler deliveries, timers and collaborator changes
  that starts where every socket holding a shard is that shard's recorded master, this
  stays so, and two sockets that hold the same shard are the same socket.
\<close>

theorem single_master:
  assumes "one_master w"
  shows "(master (shards w s) \<noteq> None \<longrightarrow>
            C w this s p cb = (Thrown (Raise (Error (Shard s) ''duplicitMaster'' [])), w))
       \<and> (master (shards w s) = None \<longrightarrow>
            (\<exists>w'. C w this s p cb = connect w' this
                 \<and> master (shards w' s) = Some this
                 \<and> shard (sockets w' this) = Some s
                 \<and> trace w' = trace w @ (case cb of None \<Rightarrow> [] | Some f \<Rightarrow> [Once this ''done'' f]))
            \<and> master (shards (snd (C w this s p cb)) s) = Some this)
       \<and> one_master (run w evs)
       \<and> (\<forall>t t'. shard (sockets (run w evs) t) = Some s \<and> shard (sockets (run w evs) t') = Some s
             \<longrightarrow> t = t')"
proof -
  have a: "master (shards w s) \<noteq> None \<longrightarrow>
            C w this s p cb = (Thrown (Raise (Error (Shard s) ''duplicitMaster'' [])), w)"
    by (simp add: C_duplicate)
  have b: "master (shards w s) = None \<longrightarrow>
            (\<exists>w'. C w this s p cb = connect w' this
                 \<and> master (shards w' s) = Some this
                 \<and> shard (sockets w' this) = Some s
                 \<and> trace w' = trace w @ (case cb of None \<Rightarrow> [] | Some f \<Rightarrow> [Once this ''done'' f]))
            \<and> master (shards (snd (C w this s p cb)) s) = Some this"
    using C_records_then_connects [of w s this p cb] C_master_after [of w s this p cb] by blast
  have c: "one_master (run w evs)" using assms by (rule one_master_run)
  have d: "\<forall>t t'. shard (sockets (run w evs) t) = Some s \<and> shard (sockets (run w evs) t') = Some s
             \<longrightarrow> t = t'"
    using one_master_unique [OF c] by blast
  from a b c d show ?thesis by blast
qed

theorem single_master_witness:
  "C (run blank [EvNew 1 0 0 None]) 2 0 0 None =
     (Thrown (Raise (Error (Shard 0) ''duplicitMaster'' [])), run blank [EvNew 1 0 0 None])
   \<and> master (shards (snd (C blank 1 0 0 None)) 0) = Some 1
   \<and> one_master (run blank [EvNew 1 0 0 None, EvClose 1, EvNew 2 0 0 None])"
proof -
  have h0: "one_master blank" by (simp add: one_master_def blank_def)
  have h1: "one_master (run blank [EvNew 1 0 0 None])"
    by (simp add: one_master_def run_def C_def blank_def connect_def Let_def)
  have m0: "master (shards blank 0) = None" by (simp add: blank_def)
  show ?thesis
    using single_master [OF h1, of 0 2 0 None "[]"]
      single_master [OF h0, of 0 1 0 None "[EvNew 1 0 0 None, EvClose 1, EvNew 2 0 0 None]"]
      linked_example(2) m0
    by simp
qed

subsection \<open>Connecting while the peer is away\<close>

text \<open>
  Claim C6. A connect attempt of a socket whose peer is not connected returns after
  exactly two calls: the \<^verbatim>\<open>done\<close> notification with a \<^verbatim>\<open>DISCONNECTED\<close> error, then one
  one-shot subscription to the peer's \<^verbatim>\<open>connected\<close> event. The subscribed handler runs the
  same connect algorithm on the same socket. Nothing else changes: no link is prepared or
  registered and no frame is transmitted.
\<close>

theorem connect_while_disconnected:
  assumes "peer (sockets w that) = Some p" and "\<not> isConnected (peers w p)"
  shows "connect w that =
           (Returned, w\<lparr>trace := trace w @
              [Emit that ''done'' [AErr (Error (Socket that) ''DISCONNECTED'' [])],
               PeerOnce p ''connected'' (ConnectRetry that)]\<rparr>)
       \<and> run_thunk (ConnectRetry that) = (\<lambda>w'. connect w' that)"
  using assms by (auto simp: connect_def Let_def do_call_def)

theorem connect_while_disconnected_witness:
  "trace (snd (connect (run blank [EvNew 1 0 0 None]) 1)) =
     [Emit 1 ''done'' [AErr (Error (Socket 1) ''DISCONNECTED'' [])],
      PeerOnce 0 ''connected'' (ConnectRetry 1),
      Emit 1 ''done'' [AErr (Error (Socket 1) ''DISCONNECTED'' [])],
      PeerOnce 0 ''connected'' (ConnectRetry 1)]
   \<and> fst (connect (run blank [EvNew 1 0 0 None]) 1) = Returned"
  using connect_while_disconnected [OF linked_example(3) linked_example(5)] linked_example(6)
  by simp

subsection \<open>Teardown\<close>

lemma close_dismantles:
  "shard (sockets w this) = Some s \<Longrightarrow> \<not> check2Link (shards w s) \<Longrightarrow>
   close w this err =
     (Returned, set_shard this None (set_master s None
        (do_call (Check2Link s) (do_call (SetSynced s (JBool False)) w))))"
  by (simp add: close_def Let_def)

text \<open>
  Claim C5. When a close or an error is delivered to a socket that holds shard \<open>s\<close> and
  \<^verbatim>\<open>check2Link()\<close> answers false, the teardown returns with the shard's \<open>master\<close> and the
  socket's \<open>shard\<close> both deleted, and the calls made are \<^verbatim>\<open>setSynced(false)\<close>, the query
  and (in the handlers) the \<^verbatim>\<open>done\<close> notification: no timer is scheduled. This holds for
  the teardown with any error or none, for the close handler and for the error handler.
\<close>

theorem teardown_unlinked_dismantles:
  assumes "shard (sockets w this) = Some s" and "\<not> check2Link (shards w s)"
  shows "fst (close w this err) = Returned
       \<and> master (shards (snd (close w this err)) s) = None
       \<and> shard (sockets (snd (close w this err)) this) = None
       \<and> trace (snd (close w this err)) = trace w @ [SetSynced s (JBool False), Check2Link s]
       \<and> fst (close_handler w this) = Returned
       \<and> master (shards (snd (close_handler w this)) s) = None
       \<and> shard (sockets (snd (close_handler w this)) this) = None
       \<and> trace (snd (close_handler w this)) =
           trace w @ [SetSynced s (JBool False), Check2Link s,
                      Emit this ''done'' [AErr (Error (Socket this) ''CLOSED'' [])]]
       \<and> fst (error_handler w this e) = Returned
       \<and> master (shards (snd (error_handler w this e)) s) = None
       \<and> shard (sockets (snd (error_handler w this e)) this) = None
       \<and> trace (snd (error_handler w this e)) =
           trace w @ [SetSynced s (JBool False), Check2Link s, Emit this ''done'' [AErr e]]"
  using assms by (simp add: close_dismantles close_handler_def error_handler_def)

theorem teardown_unlinked_dismantles_witness:
  "master (shards (snd (close_handler (run blank [EvNew 1 0 0 None]) 1)) 0) = None
   \<and> shard (sockets (snd (close_handler (run blank [EvNew 1 0 0 None]) 1)) 1) = None
   \<and> trace (snd (error_handler (run blank [EvNew 1 0 0 None]) 1 (Error Unbound ''DISCONNECTED'' []))) =
       [Emit 1 ''done'' [AErr (Error (Socket 1) ''DISCONNECTED'' [])],
        PeerOnce 0 ''connected'' (ConnectRetry 1),
        SetSynced 0 (JBool False), Check2Link 0,
        Emit 1 ''done'' [AErr (Error Unbound ''DISCONNECTED'' [])]]"
  using teardown_unlinked_dismantles [OF linked_example(1) linked_example(4),
      of None "Error Unbound ''DISCONNECTED'' []"] linked_example(6)
  by simp

lemma close_handler_throws:
  "shard (sockets w this) = Some s \<Longrightarrow> check2Link (shards w s) \<Longrightarrow>
   close_handler w this =
     (Thrown TypeError, do_call (Check2Link s) (do_call (SetSynced s (JBool False)) w))"
  by (simp add: close_handler_def close_def Let_def)

lemma error_handler_retries:
  "shard (sockets w this) = Some s \<Longrightarrow> check2Link (shards w s) \<Longrightarrow> code e = ''DISCONNECTED'' \<Longrightarrow>
   error_handler w this e =
     (Returned, do_call (Emit this ''done'' [AErr e]) (do_call (SetTimeout (ConnectRetry this) 1000)
        (do_call (Check2Link s) (do_call (SetSynced s (JBool False)) w))))"
  by (simp add: error_handler_def close_def Let_def)

text \<open>
  Claim C1. A close delivered to socket 1, which holds shard 0 while \<^verbatim>\<open>check2Link()\<close>
  answers true: the close handler passes no error to the teardown, the read of
  \<^verbatim>\<open>err.code\<close> throws a TypeError after \<^verbatim>\<open>setSynced(false)\<close> and the query, and neither a
  timer nor the \<^verbatim>\<open>done\<close> notification follows. The error handler, given an error with
  code \<^verbatim>\<open>DISCONNECTED\<close> in the same process, does schedule the retry after 1000 ms.
\<close>

theorem close_event_throws:
  "shard (sockets (run blank [EnvCheck2Link 0 True, EvNew 1 0 0 None]) 1) = Some 0
   \<and> check2Link (shards (run blank [EnvCheck2Link 0 True, EvNew 1 0 0 None]) 0)
   \<and> fst (close_handler (run blank [EnvCheck2Link 0 True, EvNew 1 0 0 None]) 1) = Thrown TypeError
   \<and> master (shards (snd (close_handler (run blank [EnvCheck2Link 0 True, EvNew 1 0 0 None]) 1)) 0) = Some 1
   \<and> shard (sockets (snd (close_handler (run blank [EnvCheck2Link 0 True, EvNew 1 0 0 None]) 1)) 1) = Some 0
   \<and> trace (snd (close_handler (run blank [EnvCheck2Link 0 True, EvNew 1 0 0 None]) 1)) =
       trace (run blank [EnvCheck2Link 0 True, EvNew 1 0 0 None])
         @ [SetSynced 0 (JBool False), Check2Link 0]
   \<and> trace (snd (error_handler (run blank [EnvCheck2Link 0 True, EvNew 1 0 0 None]) 1
                    (Error (Socket 1) ''DISCONNECTED'' []))) =
       trace (run blank [EnvCheck2Link 0 True, EvNew 1 0 0 None])
         @ [SetSynced 0 (JBool False), Check2Link 0, SetTimeout (ConnectRetry 1) 1000,
            Emit 1 ''done'' [AErr (Error (Socket 1) ''DISCONNECTED'' [])]]"
  by (simp add: run_def C_def blank_def connect_def Let_def close_handler_def error_handler_def close_def)

subsection \<open>The open handler\<close>

text \<open>
  An open whose \<^verbatim>\<open>data.synced\<close> is the string \<^verbatim>\<open>yes\<close>, delivered to socket 1 holding shard 0
  with two cached entries of which only \<^verbatim>\<open>a\<close> has slaves: the entry is re-linked, the value
  is reported as \<^verbatim>\<open>invalidSynced\<close>, and \<^verbatim>\<open>setSynced\<close> is not called with it.
\<close>

theorem open_counterexample:
  "trace (snd (open (run blank [EnvCache 0 [(''a'', \<lparr>slaves = JObj []\<rparr>), (''b'', \<lparr>slaves = JUndefined\<rparr>)],
                                 EvNew 1 0 0 None]) 1 (JObj [(''synced'', JStr ''yes'')]))) =
     [Emit 1 ''done'' [AErr (Error (Socket 1) ''DISCONNECTED'' [])],
      PeerOnce 0 ''connected'' (ConnectRetry 1),
      LinkMaster 0 ''a'',
      LinkError 1 (Error (Socket 1) ''invalidSynced'' [JStr ''yes'']),
      Emit 1 ''done'' [ANull, ASock 1]]
   \<and> SetSynced 0 (JStr ''yes'') \<notin> set (trace (snd (open (run blank [EnvCache 0 [(''a'', \<lparr>slaves = JObj []\<rparr>), (''b'', \<lparr>slaves = JUndefined\<rparr>)],
                                 EvNew 1 0 0 None]) 1 (JObj [(''synced'', JStr ''yes'')]))))"
  by (simp add: run_def C_def blank_def connect_def Let_def open_def synced_def do_call_def)

text \<open>
  Claim C4, amended. For every open delivered to a socket that holds shard \<open>s\<close>, with a
  payload whose \<^verbatim>\<open>synced\<close> property reads as \<open>v\<close>: the handler calls \<^verbatim>\<open>linkMaster()\<close> on
  exactly the cached entries whose \<^verbatim>\<open>slaves\<close> is set, in cache order; then, if \<open>v\<close> is a
  boolean, applies it to the shard with \<^verbatim>\<open>setSynced(v)\<close>, and otherwise reports
  \<^verbatim>\<open>invalidSynced\<close> through the link-error path; then emits \<^verbatim>\<open>done\<close> with a null error.
\<close>

theorem open_relinks_and_reports:
  assumes "shard (sockets w this) = Some s" and "get_prop d ''synced'' = Some v"
  shows "open w this d =
    (Returned,
     w\<lparr>trace := trace w
         @ map (LinkMaster s) (map fst (filter (\<lambda>ke. truthy (slaves (snd ke))) (cache (shards w s))))
         @ [if typeof v = ''boolean'' then SetSynced s v
            else LinkError this (Error (Socket this) ''invalidSynced'' [v])]
         @ [Emit this ''done'' [ANull, ASock this]]\<rparr>)"
  using assms by (simp add: open_def Let_def link_entries_trace synced_def do_call_def)

theorem open_relinks_and_reports_witness:
  "open (run blank [EnvCache 0 [(''a'', \<lparr>slaves = JObj []\<rparr>), (''b'', \<lparr>slaves = JUndefined\<rparr>)],
                               EvNew 1 0 0 None]) 1 (JObj [(''synced'', JBool True)]) =
    (Returned, (run blank [EnvCache 0 [(''a'', \<lparr>slaves = JObj []\<rparr>), (''b'', \<lparr>slaves = JUndefined\<rparr>)],
                               EvNew 1 0 0 None])
      \<lparr>trace := [Emit 1 ''done'' [AErr (Error (Socket 1) ''DISCONNECTED'' [])],
      PeerOnce 0 ''connected'' (ConnectRetry 1),
      LinkMaster 0 ''a'', SetSynced 0 (JBool True), Emit 1 ''done'' [ANull, ASock 1]]\<rparr>)"
proof -
  let ?w = "run blank [EnvCache 0 [(''a'', \<lparr>slaves = JObj []\<rparr>), (''b'', \<lparr>slaves = JUndefined\<rparr>)],
                               EvNew 1 0 0 None]"
  have h1: "shard (sockets ?w 1) = Some 0"
    by (simp add: run_def C_def blank_def connect_def Let_def)
  have h2: "get_prop (JObj [(''synced'', JBool True)]) ''synced'' = Some (JBool True)" by simp
  have c: "cache (shards ?w 0) = [(''a'', \<lparr>slaves = JObj []\<rparr>), (''b'', \<lparr>slaves = JUndefined\<rparr>)]"
    by (simp add: run_def C_def blank_def connect_def Let_def)
  have t: "trace ?w = [Emit 1 ''done'' [AErr (Error (Socket 1) ''DISCONNECTED'' [])],
      PeerOnce 0 ''connected'' (ConnectRetry 1)]"
    by (simp add: run_def C_def blank_def connect_def Let_def)
  show ?thesis using open_relinks_and_reports [OF h1 h2] c t by simp
qed

section \<open>Properties of the peer RX handlers\<close>

subsection \<open>Link-id resolution\<close>

lemma toString16_examples:
  "toString16 7 = ''7''" "toString16 255 = ''ff''" "toString16 0 = ''0''"
  by (simp_all add: toString16_def hex_nat.simps hex_digit_def)

lemma truthy_js_int: "truthy (js_int (Some l)) \<longleftrightarrow> l \<noteq> 0"
  by (simp add: js_int_def)

lemma truthy_get_prop: "truthy v \<Longrightarrow> get_prop v k \<noteq> None"
  by (cases v) simp_all

lemma indexOf_from_ge: "0 \<le> i \<Longrightarrow> (0 \<le> indexOf_from xs x i) = (x \<in> set xs)"
  by (induction xs arbitrary: i) auto

lemma indexOf_member: "(0 \<le> indexOf xs x) = (x \<in> set xs)"
  by (simp add: indexOf_def indexOf_from_ge)

lemma getLink_resolves:
  "lid req = Some l \<Longrightarrow> l \<noteq> 0 \<Longrightarrow> truthy (links w (toString16 l)) \<Longrightarrow>
   getLink w req = (links w (toString16 l), [])"
  by (simp add: getLink_def js_int_def)

text \<open>
  An \<^verbatim>\<open>open\<close> frame with link id 0 on a connection with no registered link: the table has
  no socket under \<^verbatim>\<open>0\<close>, yet the request is only logged and no error frame is sent.
\<close>

theorem getLink_zero_unanswered:
  "getLink no_links (frame_of ''open'' (Some 0) '''') =
     (JUndefined, [Log (RxError OfWs ''MISSING_LINK'' (DReq (frame_of ''open'' (Some 0) '''')))])
   \<and> links no_links (toString16 0) = JUndefined
   \<and> snd (getLink no_links (frame_of ''open'' (Some 0) '''')) \<noteq>
       [TxError 0 (RxError OfWs ''MISSING_LINK'' (DReq (frame_of ''open'' (Some 0) '''')))]"
  by (simp add: getLink_def js_int_def frame_of_def no_links_def)

text \<open>
  Claim C3, amended. A request with no link id is logged locally as \<^verbatim>\<open>MISSING_LINK\<close> and
  dropped with no reply. A request whose link id is not 0 and has no registered socket in
  the link table is answered with one \<^verbatim>\<open>MISSING_LINK\<close> error frame sent to that link id,
  unless its type is \<^verbatim>\<open>error\<close>: then the error is only logged and no frame is sent.
\<close>

theorem getLink_unresolved:
  "(lid req = None \<longrightarrow>
      getLink w req = (JUndefined, [Log (RxError OfWs ''MISSING_LINK'' (DReq req))]))
   \<and> (lid req = Some l \<and> l \<noteq> 0 \<and> \<not> truthy (links w (toString16 l)) \<longrightarrow>
      getLink w req =
        (JUndefined,
         if rtype req = ''error'' then [Log (RxError OfWs ''MISSING_LINK'' (DReq req))]
         else [TxError l (RxError OfWs ''MISSING_LINK'' (DReq req))]))"
  by (simp add: getLink_def js_int_def)

theorem getLink_unresolved_witness:
  "getLink no_links (frame_of ''open'' None '''') =
     (JUndefined, [Log (RxError OfWs ''MISSING_LINK'' (DReq (frame_of ''open'' None '''')))])
   \<and> getLink no_links (frame_of ''open'' (Some 7) '''') =
     (JUndefined, [TxError 7 (RxError OfWs ''MISSING_LINK'' (DReq (frame_of ''open'' (Some 7) '''')))])
   \<and> getLink no_links (frame_of ''error'' (Some 7) '''') =
     (JUndefined, [Log (RxError OfWs ''MISSING_LINK'' (DReq (frame_of ''error'' (Some 7) '''')))])"
proof -
  have a: "lid (frame_of ''open'' None '''') = None" by (simp add: frame_of_def)
  have b: "lid (frame_of ''open'' (Some 7) '''') = Some 7 \<and> (7::int) \<noteq> 0
           \<and> \<not> truthy (links no_links (toString16 7))"
    by (simp add: frame_of_def no_links_def)
  have c: "lid (frame_of ''error'' (Some 7) '''') = Some 7 \<and> (7::int) \<noteq> 0
           \<and> \<not> truthy (links no_links (toString16 7))"
    by (simp add: frame_of_def no_links_def)
  have ro: "rtype (frame_of ''open'' (Some 7) '''') \<noteq> ''error''" by (simp add: frame_of_def)
  have re: "rtype (frame_of ''error'' (Some 7) '''') = ''error''" by (simp add: frame_of_def)
  show ?thesis
    using getLink_unresolved [of "frame_of ''open'' None ''''" no_links 7]
      getLink_unresolved [of "frame_of ''open'' (Some 7) ''''" no_links 7]
      getLink_unresolved [of "frame_of ''error'' (Some 7) ''''" no_links 7]
      a b c ro re
    by simp
qed

text \<open>
  Claim C10. A frame whose link id is the integer 0 is handled as a frame without a link
  id: whatever the link table holds (also a socket under the key \<^verbatim>\<open>0\<close>), the result is
  \<^verbatim>\<open>undefined\<close> and the only call is the local log of \<^verbatim>\<open>MISSING_LINK\<close>, so no reply frame
  is sent. A link id other than 0 is looked up under its hexadecimal string.
\<close>

theorem getLink_lid_zero:
  "getLink w (req\<lparr>lid := Some 0\<rparr>) =
     (JUndefined, [Log (RxError OfWs ''MISSING_LINK'' (DReq (req\<lparr>lid := Some 0\<rparr>)))])
   \<and> (l \<noteq> 0 \<and> truthy (links w (toString16 l)) \<longrightarrow>
        getLink w (req\<lparr>lid := Some l\<rparr>) = (links w (toString16 l), []))"
  by (simp add: getLink_def js_int_def)

theorem getLink_lid_zero_witness:
  "getLink (one_link ''0'' (JObj [])) (frame_of ''open'' (Some 0) '''') =
     (JUndefined, [Log (RxError OfWs ''MISSING_LINK'' (DReq (frame_of ''open'' (Some 0) '''')))])
   \<and> links (one_link ''0'' (JObj [])) (toString16 0) = JObj []
   \<and> getLink (one_link ''ff'' (JObj [])) (frame_of ''open'' (Some 255) '''') = (JObj [], [])"
proof -
  have z: "(frame_of ''open'' (Some 255) '''')\<lparr>lid := Some 0\<rparr> = frame_of ''open'' (Some 0) ''''"
    by (simp add: frame_of_def)
  have f: "(frame_of ''open'' (Some 255) '''')\<lparr>lid := Some 255\<rparr> = frame_of ''open'' (Some 255) ''''"
    by (simp add: frame_of_def)
  have h: "(255::int) \<noteq> 0 \<and> truthy (links (one_link ''ff'' (JObj [])) (toString16 255))"
    by (simp add: one_link_def toString16_examples)
  have k: "links (one_link ''ff'' (JObj [])) (toString16 255) = JObj []"
    by (simp add: one_link_def toString16_examples)
  have k0: "links (one_link ''0'' (JObj [])) (toString16 0) = JObj []"
    by (simp add: one_link_def toString16_examples)
  show ?thesis
    using getLink_lid_zero [of "one_link ''0'' (JObj [])" "frame_of ''open'' (Some 255) ''''" 255]
      getLink_lid_zero [of "one_link ''ff'' (JObj [])" "frame_of ''open'' (Some 255) ''''" 255]
      z f h k k0
    by simp
qed

subsection \<open>Command frames\<close>

text \<open>
  Claim C7. A command frame whose link id resolves to a registered socket that is not a
  pass-through (its \<^verbatim>\<open>ws\<close> property is not set): when the frame's name is on the forbidden
  list, the only call is \<^verbatim>\<open>Ose.link.error\<close> on the socket with \<^verbatim>\<open>FORBIDDEN_HANDLER\<close>; when
  the name is not on the list and the socket has no function under it, the only call is
  \<^verbatim>\<open>Ose.link.error\<close> with \<^verbatim>\<open>MISSING_HANDLER\<close>. In both cases nothing is invoked on the
  socket. A frame with link id 0 resolves to no socket (claim C10).
\<close>

theorem command_rejects_handler:
  assumes "lid req = Some l" and "l \<noteq> 0" and "links w (toString16 l) = socket"
    and "truthy socket" and "get_prop socket ''ws'' = Some t" and "\<not> truthy t"
  shows "(name req \<in> set forbiddenNames \<longrightarrow>
            rx_command forbiddenNames w req =
              (Returned, [LinkErr socket
                 (RxError OfWs ''FORBIDDEN_HANDLER'' (DVal (JStr (name req))))]))
       \<and> (name req \<notin> set forbiddenNames \<and> get_prop socket (name req) = Some h
            \<and> typeof h \<noteq> ''function'' \<longrightarrow>
            rx_command forbiddenNames w req =
              (Returned, [LinkErr socket
                 (RxError (OfObj socket) ''MISSING_HANDLER'' (DVal (JStr (name req))))]))"
proof -
  have g: "getLink w req = (socket, [])"
    using assms getLink_resolves [of req l w] by simp
  show ?thesis
    using assms(4,5,6) by (simp add: rx_command_def g indexOf_member)
qed

theorem command_rejects_handler_witness:
  "rx_command [''constructor''] (one_link ''7'' (JObj [(''constructor'', JFun 0 [])]))
       (frame_of ''command'' (Some 7) ''constructor'') =
     (Returned, [LinkErr (JObj [(''constructor'', JFun 0 [])])
        (RxError OfWs ''FORBIDDEN_HANDLER'' (DVal (JStr ''constructor'')))])
   \<and> rx_command [''constructor''] (one_link ''7'' (JObj [(''constructor'', JFun 0 [])]))
       (frame_of ''command'' (Some 7) ''foo'') =
     (Returned, [LinkErr (JObj [(''constructor'', JFun 0 [])])
        (RxError (OfObj (JObj [(''constructor'', JFun 0 [])])) ''MISSING_HANDLER''
           (DVal (JStr ''foo'')))])"
proof -
  let ?s = "JObj [(''constructor'', JFun 0 [])]"
  have l: "links (one_link ''7'' ?s) (toString16 7) = ?s"
    by (simp add: one_link_def toString16_examples)
  have p: "get_prop ?s ''ws'' = Some JUndefined" by simp
  have n: "\<not> truthy JUndefined" by simp
  have tr: "truthy ?s" by simp
  have z: "(7::int) \<noteq> 0" by simp
  have a: "lid (frame_of ''command'' (Some 7) ''constructor'') = Some 7"
    and a': "name (frame_of ''command'' (Some 7) ''constructor'') = ''constructor''"
    by (simp_all add: frame_of_def)
  have b: "lid (frame_of ''command'' (Some 7) ''foo'') = Some 7"
    and b': "name (frame_of ''command'' (Some 7) ''foo'') = ''foo''"
    by (simp_all add: frame_of_def)
  have q: "get_prop ?s ''foo'' = Some JUndefined" by simp
  show ?thesis
    using command_rejects_handler [OF a z l tr p n, of "[''constructor'']" JUndefined]
      command_rejects_handler [OF b z l tr p n, of "[''constructor'']" JUndefined]
      a' b' q
    by simp
qed

subsection \<open>Open frames\<close>

lemma error_of_string: "error target err (JStr x) =
   (Returned, [Log (RxError (OfObj target) err (DVal (JStr x)))])"
  by (simp add: error_def)

lemma rx_open_missing_handler:
  assumes "lid req = Some l" and "l \<noteq> 0" and "links w (toString16 l) = socket"
    and "truthy socket" and "get_prop socket ''link'' = Some k" and "k \<noteq> JStr ''relay''"
    and "get_prop socket ''open'' = Some h" and "typeof h \<noteq> ''function''"
  shows "rx_open w req =
     (Returned, [Log (RxError (OfObj socket) ''MISSING_HANDLER'' (DVal (JStr ''open'')))])"
proof -
  have g: "getLink w req = (socket, [])"
    using assms getLink_resolves [of req l w] by simp
  show ?thesis using assms(4-8) by (simp add: rx_open_def g error_of_string)
qed

text \<open>
  Claim C9. An \<^verbatim>\<open>open\<close> frame with link id 7 whose registered socket is not a relay and has
  no \<^verbatim>\<open>open\<close> function: the helper is called with the string \<^verbatim>\<open>open\<close> as its data, the
  string has no \<^verbatim>\<open>lid\<close>, and the \<^verbatim>\<open>MISSING_HANDLER\<close> error is only logged; no error frame
  is sent to link id 7.
\<close>

theorem open_missing_handler_only_logged:
  "rx_open (one_link ''7'' (JObj [])) (frame_of ''open'' (Some 7) '''') =
     (Returned, [Log (RxError (OfObj (JObj [])) ''MISSING_HANDLER'' (DVal (JStr ''open'')))])"
  by (simp add: rx_open_def getLink_def js_int_def frame_of_def one_link_def toString16_examples
      error_def)

end
